theory Spec2Isabelle
  imports Complex_Main
begin

section \<open>The jetton sender: data model\<close>

text \<open>
  The program \<^verbatim>\<open>jetton_sender.py\<close> resolves a jetton and a source wallet through a remote
  gateway, checks that the wallet is active and then sends the jetton to every destination
  of a list, each send wrapped by the \<^verbatim>\<open>retry\<close> decorator of the tenacity library.

  Exceptions are values. An exception raised by an external library carries the names of
  its class and of that class's bases, so that \<^verbatim>\<open>isinstance\<close> (which both
  \<^verbatim>\<open>except C\<close> and \<^verbatim>\<open>retry_if_exception_type(C)\<close> use) is membership in that list; the
  model therefore does not fix whether \<^verbatim>\<open>GetMethodError\<close> derives from
  \<^verbatim>\<open>TonCenterClientError\<close>. \<^verbatim>\<open>RetryError\<close> is what tenacity raises when the attempts are
  used up and \<^verbatim>\<open>reraise\<close> is not set; it wraps the error of the last attempt.
  \<^verbatim>\<open>SystemExit\<close> is what \<^verbatim>\<open>exit(n)\<close> raises.
\<close>

datatype exn =
    Exn (classes: "string list") (message: string)
  | RetryError exn
  | SystemExit int

fun isinstance :: "exn \<Rightarrow> string \<Rightarrow> bool" where
  "isinstance (Exn cs m) c = (c \<in> set cs)"
| "isinstance (RetryError e) c = (c \<in> set [''RetryError'', ''Exception'', ''BaseException''])"
| "isinstance (SystemExit n) c = (c \<in> set [''SystemExit'', ''BaseException''])"

text \<open>\<^verbatim>\<open>class WalletState(str, Enum)\<close>: its member \<^verbatim>\<open>active\<close> is the string "active".\<close>

definition WalletState_active :: string where
  "WalletState_active = ''active''"

definition WalletState_inactive :: string where
  "WalletState_inactive = ''inactive''"

definition WalletState_notinit :: string where
  "WalletState_notinit = ''notinit''"

datatype jetton = Jetton (address: string)

datatype wallet = Wallet (mnemonics: "string list") (version: string)

text \<open>
  The fee is a Python float that the program only hands on to the gateway; it is never
  computed with or compared.
\<close>

type_synonym fee = real

text \<open>
  The command-line arguments that \<^verbatim>\<open>main\<close> uses, and the four retry settings read from
  the environment when the module is loaded. \<^verbatim>\<open>setup\<close> (argument parsing and the reading
  of the two files) is outside the model: its three results are inputs of \<^verbatim>\<open>main\<close>.
\<close>

record args =
  jetton_address :: string
  jetton_send_amount :: int
  jetton_send_fee :: fee
  jetton_send_sleep :: int
  source_wallet_version :: string

record retry_env =
  RETRIEVE_RETRY_ATTEMPTS :: int
  RETRIEVE_RETRY_WAIT :: int
  SEND_RETRY_ATTEMPTS :: int
  SEND_RETRY_WAIT :: int

subsection \<open>The gateway and the observable effects\<close>

text \<open>
  The three gateway operations the program awaits. What each returns or raises is not
  decided by the program, so the gateway is a parameter: the first argument of each
  operation is the number of gateway calls made earlier in the run, which lets one value
  of this record describe any sequence of answers.
\<close>

record gateway =
  jetton_update :: "nat \<Rightarrow> string \<Rightarrow> exn + unit"
  wallet_get_state :: "nat \<Rightarrow> string list \<Rightarrow> string \<Rightarrow> exn + string"
  transfer_jetton :: "nat \<Rightarrow> string \<Rightarrow> string \<Rightarrow> int \<Rightarrow> fee \<Rightarrow> exn + int"

datatype request =
    JettonUpdate string
  | GetState "string list" string
  | TransferJetton string string int fee

datatype level = INFO | ERROR

datatype log_message =
    JettonInfo jetton
  | SourceWalletState string
  | JettonSent string int
  | GetMethodErrorFor string exn
  | CannotSendJetton string exn
  | FinishedCall string int
  | CannotGetJettonOrWallet
  | SourceWalletNotActive wallet

datatype event =
    Call request
  | Log level log_message
  | Sleep int
  | Wait int

text \<open>
  The state threaded through the program: everything it has done so far, in order, and
  the number of gateway calls among it.
\<close>

record world =
  trace :: "event list"
  calls :: nat

definition initial :: world where
  "initial = \<lparr>trace = [], calls = 0\<rparr>"

definition emit :: "event \<Rightarrow> world \<Rightarrow> world" where
  "emit e w = w\<lparr>trace := trace w @ [e]\<rparr>"

definition call :: "request \<Rightarrow> world \<Rightarrow> world" where
  "call r w = w\<lparr>trace := trace w @ [Call r], calls := Suc (calls w)\<rparr>"

text \<open>
  \<^verbatim>\<open>time.sleep(s)\<close> with an integer \<^verbatim>\<open>s\<close> first converts the seconds to a 64-bit count of
  nanoseconds and raises \<^verbatim>\<open>OverflowError\<close> when they do not fit, which is so beyond
  9223372036 in either direction; then it raises \<^verbatim>\<open>ValueError\<close> when \<^verbatim>\<open>s\<close> is negative.
  Otherwise it sleeps. (The command line takes the delay with \<^verbatim>\<open>type=int\<close>, which accepts
  any integer.)
\<close>

definition sleep :: "int \<Rightarrow> world \<Rightarrow> (exn + unit) \<times> world" where
  "sleep s w =
     (if s < - 9223372036 \<or> 9223372036 < s
      then (Inl (Exn [''OverflowError'', ''ArithmeticError'', ''Exception'', ''BaseException'']
                     ''timestamp too large to convert to C _PyTime_t''), w)
      else if s < 0
      then (Inl (Exn [''ValueError'', ''Exception'', ''BaseException'']
                     ''sleep length must be non-negative''), w)
      else (Inr (), emit (Sleep s) w))"

text \<open>The delays with which \<^verbatim>\<open>time.sleep\<close> returns.\<close>

definition sleep_accepts :: "int \<Rightarrow> bool" where
  "sleep_accepts s = (0 \<le> s \<and> s \<le> 9223372036)"

section \<open>The retry decorator\<close>

text \<open>
  \<^verbatim>\<open>@retry(stop=stop_after_attempt(n), wait=wait_fixed(s),
  retry=retry_if_exception_type(TonCenterClientError), after=after_log(logger, INFO),
  reraise=r)\<close> around a function \<^verbatim>\<open>fn\<close>. Attempts are numbered from 1. An attempt is
  retried when it raised tenacity's own \<^verbatim>\<open>TryAgain\<close> (the explicit retry, which the
  wrapper honours whatever \<^verbatim>\<open>retry=\<close> says) or when the configured predicate holds, here
  when it raised an instance of \<^verbatim>\<open>TonCenterClientError\<close>. After an attempt that is not to
  be retried the wrapper returns the result or re-raises the error; otherwise it runs the
  \<^verbatim>\<open>after\<close> hook, then stops when the attempt number has reached \<^verbatim>\<open>n\<close> (raising the last
  error when \<^verbatim>\<open>reraise\<close> is set and \<^verbatim>\<open>RetryError\<close> otherwise, no
  \<^verbatim>\<open>retry_error_callback\<close> being configured), or waits \<^verbatim>\<open>s\<close> seconds and makes the next
  attempt.
\<close>

definition retried :: "exn \<Rightarrow> bool" where
  "retried e = (isinstance e ''TryAgain'' \<or> isinstance e ''TonCenterClientError'')"

function retry ::
  "bool \<Rightarrow> int \<Rightarrow> int \<Rightarrow> string \<Rightarrow> (world \<Rightarrow> (exn + 'a) \<times> world) \<Rightarrow> int \<Rightarrow> world
     \<Rightarrow> (exn + 'a) \<times> world" where
  "retry reraise max_attempt_number wait_s fn_name fn attempt_number w =
     (case fn w of
        (Inr v, w1) \<Rightarrow> (Inr v, w1)
      | (Inl e, w1) \<Rightarrow>
          if \<not> retried e then (Inl e, w1)
          else
            let w2 = emit (Log INFO (FinishedCall fn_name attempt_number)) w1 in
            if attempt_number \<ge> max_attempt_number
            then (Inl (if reraise then e else RetryError e), w2)
            else retry reraise max_attempt_number wait_s fn_name fn
                   (attempt_number + 1) (emit (Wait wait_s) w2))"
  by pat_completeness auto
termination
  by (relation "measure (\<lambda>(r, n, s, nm, fn, a, w). nat (n - a))") auto

declare retry.simps [simp del]

section \<open>The program\<close>

text \<open>The body of \<^verbatim>\<open>get_jetton\<close>, and the decorated function.\<close>

definition get_jetton_body :: "gateway \<Rightarrow> string \<Rightarrow> world \<Rightarrow> (exn + jetton) \<times> world" where
  "get_jetton_body gw jetton_addr w =
     (let jetton = Jetton jetton_addr in
      case jetton_update gw (calls w) jetton_addr of
        Inl e \<Rightarrow> (Inl e, call (JettonUpdate jetton_addr) w)
      | Inr u \<Rightarrow> (Inr jetton, emit (Log INFO (JettonInfo jetton)) (call (JettonUpdate jetton_addr) w)))"

definition get_jetton :: "gateway \<Rightarrow> retry_env \<Rightarrow> string \<Rightarrow> world \<Rightarrow> (exn + jetton) \<times> world" where
  "get_jetton gw env jetton_addr w =
     retry True (RETRIEVE_RETRY_ATTEMPTS env) (RETRIEVE_RETRY_WAIT env) ''get_jetton''
       (get_jetton_body gw jetton_addr) 1 w"

text \<open>The body of \<^verbatim>\<open>get_wallet\<close>, and the decorated function.\<close>

definition get_wallet_body ::
  "gateway \<Rightarrow> string list \<Rightarrow> string \<Rightarrow> world \<Rightarrow> (exn + wallet \<times> string) \<times> world" where
  "get_wallet_body gw mnemonics_in wallet_version w =
     (let wallet = Wallet mnemonics_in wallet_version in
      case wallet_get_state gw (calls w) mnemonics_in wallet_version of
        Inl e \<Rightarrow> (Inl e, call (GetState mnemonics_in wallet_version) w)
      | Inr state \<Rightarrow>
          (Inr (wallet, state),
           emit (Log INFO (SourceWalletState state)) (call (GetState mnemonics_in wallet_version) w)))"

definition get_wallet ::
  "gateway \<Rightarrow> retry_env \<Rightarrow> string list \<Rightarrow> string \<Rightarrow> world \<Rightarrow> (exn + wallet \<times> string) \<times> world" where
  "get_wallet gw env mnemonics_in wallet_version w =
     retry True (RETRIEVE_RETRY_ATTEMPTS env) (RETRIEVE_RETRY_WAIT env) ''get_wallet''
       (get_wallet_body gw mnemonics_in wallet_version) 1 w"

text \<open>
  The body of \<^verbatim>\<open>send_jetton\<close>. The \<^verbatim>\<open>try\<close> block awaits the transfer, logs it and sleeps;
  whatever it raises goes to the first matching handler: \<^verbatim>\<open>except GetMethodError\<close> logs
  and falls through to a normal return, \<^verbatim>\<open>except BaseException\<close> logs and re-raises.
\<close>

definition send_jetton_try ::
  "gateway \<Rightarrow> wallet \<Rightarrow> string \<Rightarrow> jetton \<Rightarrow> int \<Rightarrow> fee \<Rightarrow> int \<Rightarrow> world \<Rightarrow> (exn + unit) \<times> world" where
  "send_jetton_try gw source_wallet destination_wallet jetton amount fee sleep_seconds w =
     (let w1 = call (TransferJetton destination_wallet (address jetton) amount fee) w in
      case transfer_jetton gw (calls w) destination_wallet (address jetton) amount fee of
        Inl e \<Rightarrow> (Inl e, w1)
      | Inr api_response_code \<Rightarrow>
          sleep sleep_seconds
            (emit (Log INFO (JettonSent destination_wallet api_response_code)) w1))"

definition send_jetton_body ::
  "gateway \<Rightarrow> wallet \<Rightarrow> string \<Rightarrow> jetton \<Rightarrow> int \<Rightarrow> fee \<Rightarrow> int \<Rightarrow> world \<Rightarrow> (exn + unit) \<times> world" where
  "send_jetton_body gw source_wallet destination_wallet jetton amount fee sleep_seconds w =
     (case send_jetton_try gw source_wallet destination_wallet jetton amount fee sleep_seconds w of
        (Inr u, w1) \<Rightarrow> (Inr (), w1)
      | (Inl e, w1) \<Rightarrow>
          if isinstance e ''GetMethodError''
          then (Inr (), emit (Log ERROR (GetMethodErrorFor destination_wallet e)) w1)
          else (Inl e, emit (Log ERROR (CannotSendJetton destination_wallet e)) w1))"

definition send_jetton ::
  "gateway \<Rightarrow> retry_env \<Rightarrow> wallet \<Rightarrow> string \<Rightarrow> jetton \<Rightarrow> int \<Rightarrow> fee \<Rightarrow> int \<Rightarrow> world
     \<Rightarrow> (exn + unit) \<times> world" where
  "send_jetton gw env source_wallet destination_wallet jetton amount fee sleep_seconds w =
     retry False (SEND_RETRY_ATTEMPTS env) (SEND_RETRY_WAIT env) ''send_jetton''
       (send_jetton_body gw source_wallet destination_wallet jetton amount fee sleep_seconds) 1 w"

text \<open>
  The \<^verbatim>\<open>for\<close> loop of \<^verbatim>\<open>main\<close>: one \<^verbatim>\<open>send_jetton\<close> per element of the list, in order; an
  error leaves the loop at once, since nothing in \<^verbatim>\<open>main\<close> catches it.
\<close>

fun send_loop ::
  "gateway \<Rightarrow> retry_env \<Rightarrow> wallet \<Rightarrow> jetton \<Rightarrow> int \<Rightarrow> fee \<Rightarrow> int \<Rightarrow> string list \<Rightarrow> world
     \<Rightarrow> (exn + unit) \<times> world" where
  "send_loop gw env source_wallet jetton amount fee sleep_seconds [] w = (Inr (), w)"
| "send_loop gw env source_wallet jetton amount fee sleep_seconds (destination_wallet # rest) w =
     (case send_jetton gw env source_wallet destination_wallet jetton amount fee sleep_seconds w of
        (Inl e, w1) \<Rightarrow> (Inl e, w1)
      | (Inr u, w1) \<Rightarrow> send_loop gw env source_wallet jetton amount fee sleep_seconds rest w1)"

text \<open>
  \<^verbatim>\<open>main\<close>, from the return of \<^verbatim>\<open>setup\<close> on. The handler of the first \<^verbatim>\<open>try\<close> catches
  instances of \<^verbatim>\<open>TonCenterClientError\<close> only.
\<close>

definition resolution_failed :: "exn \<Rightarrow> world \<Rightarrow> (exn + unit) \<times> world" where
  "resolution_failed e w =
     (if isinstance e ''TonCenterClientError''
      then (Inl (SystemExit 3), emit (Log ERROR CannotGetJettonOrWallet) w)
      else (Inl e, w))"

definition main ::
  "gateway \<Rightarrow> retry_env \<Rightarrow> args \<Rightarrow> string list \<Rightarrow> string list \<Rightarrow> (exn + unit) \<times> world" where
  "main gw env a source_wallet_mnemonic destination_wallets =
     (case get_jetton gw env (jetton_address a) initial of
        (Inl e, w1) \<Rightarrow> resolution_failed e w1
      | (Inr jetton, w1) \<Rightarrow>
          (case get_wallet gw env source_wallet_mnemonic (source_wallet_version a) w1 of
             (Inl e, w2) \<Rightarrow> resolution_failed e w2
           | (Inr (source_wallet, source_wallet_state), w2) \<Rightarrow>
               if source_wallet_state \<noteq> WalletState_active
               then (Inl (SystemExit 4), emit (Log ERROR (SourceWalletNotActive source_wallet)) w2)
               else send_loop gw env source_wallet jetton (jetton_send_amount a)
                      (jetton_send_fee a) (jetton_send_sleep a) destination_wallets w2))"

text \<open>
  The exit status of the process: 0 when \<^verbatim>\<open>main\<close> returns, the argument of \<^verbatim>\<open>exit\<close>
  (the program passes 3 and 4), and 1 when any other exception reaches the top level.
\<close>

fun exit_code :: "exn + unit \<Rightarrow> int" where
  "exit_code (Inr u) = 0"
| "exit_code (Inl (SystemExit n)) = n"
| "exit_code (Inl e) = 1"

text \<open>
  Observations on a trace: the transfers submitted, the inter-send sleeps, and the waits
  of the retry wrapper between two attempts.
\<close>

fun transfers :: "event list \<Rightarrow> request list" where
  "transfers [] = []"
| "transfers (Call (TransferJetton d j n f) # es) = TransferJetton d j n f # transfers es"
| "transfers (e # es) = transfers es"

fun sleeps :: "event list \<Rightarrow> int list" where
  "sleeps [] = []"
| "sleeps (Sleep s # es) = s # sleeps es"
| "sleeps (e # es) = sleeps es"



subsection \<open>Example runs\<close>

text \<open>
  Three errors a gateway can raise: a transient gateway error, a method rejection (here
  a subclass of the gateway error, the harder case for the classification) and an error
  of neither class. A gateway is given by its answers to the successive calls.
\<close>

definition busy :: exn where
  "busy = Exn [''TonCenterClientError'', ''BaseException''] ''rate limit exceeded''"

definition rejected :: exn where
  "rejected = Exn [''GetMethodError'', ''TonCenterClientError'', ''BaseException''] ''exit code -13''"

definition crashed :: exn where
  "crashed = Exn [''KeyError'', ''LookupError'', ''Exception'', ''BaseException''] ''result''"

text \<open>Tenacity's explicit retry signal, should anything below the wrapper raise it.\<close>

definition try_again :: exn where
  "try_again = Exn [''TryAgain'', ''Exception'', ''BaseException''] []"

definition scripted ::
  "(nat \<Rightarrow> exn + unit) \<Rightarrow> (nat \<Rightarrow> exn + string) \<Rightarrow> (nat \<Rightarrow> string \<Rightarrow> exn + int) \<Rightarrow> gateway" where
  "scripted on_update on_state on_transfer =
     \<lparr>jetton_update = (\<lambda>k a. on_update k),
      wallet_get_state = (\<lambda>k m v. on_state k),
      transfer_jetton = (\<lambda>k d j n f. on_transfer k d)\<rparr>"

definition example_args :: args where
  "example_args =
     \<lparr>jetton_address = ''EQJ'', jetton_send_amount = 10, jetton_send_fee = 1 / 20,
      jetton_send_sleep = 60, source_wallet_version = ''v4r2''\<rparr>"

definition example_env :: retry_env where
  "example_env =
     \<lparr>RETRIEVE_RETRY_ATTEMPTS = 2, RETRIEVE_RETRY_WAIT = 5,
      SEND_RETRY_ATTEMPTS = 2, SEND_RETRY_WAIT = 5\<rparr>"

definition example_mnemonic :: "string list" where
  "example_mnemonic = [''abandon'', ''ability'']"

definition example_wallet :: wallet where
  "example_wallet = Wallet example_mnemonic ''v4r2''"

definition example_jetton :: jetton where
  "example_jetton = Jetton ''EQJ''"

definition example_transfer :: "string \<Rightarrow> request" where
  "example_transfer d = TransferJetton d ''EQJ'' 10 (1 / 20)"

text \<open>
  A gateway that resolves the jetton and an active wallet at the first attempt and
  answers each transfer by its destination; and the world after a transfer that was sent.
\<close>

definition answering :: "(string \<Rightarrow> exn + int) \<Rightarrow> gateway" where
  "answering answer = scripted (\<lambda>k. Inr ()) (\<lambda>k. Inr ''active'') (\<lambda>k d. answer d)"

definition sent :: "string \<Rightarrow> int \<Rightarrow> world \<Rightarrow> world" where
  "sent d code w =
     emit (Sleep 60) (emit (Log INFO (JettonSent d code)) (call (example_transfer d) w))"

definition always_sent :: gateway where
  "always_sent = answering (\<lambda>d. Inr 200)"

definition always_busy :: gateway where
  "always_busy = answering (\<lambda>d. Inl busy)"

definition rejecting_B :: gateway where
  "rejecting_B = answering (\<lambda>d. if d = ''B'' then Inl rejected else Inr 200)"

definition crashing_B :: gateway where
  "crashing_B = answering (\<lambda>d. if d = ''B'' then Inl crashed else Inr 200)"

definition jetton_down :: gateway where
  "jetton_down = scripted (\<lambda>k. Inl busy) (\<lambda>k. Inr ''active'') (\<lambda>k d. Inr 200)"

definition wallet_down :: gateway where
  "wallet_down = scripted (\<lambda>k. Inr ()) (\<lambda>k. Inl busy) (\<lambda>k d. Inr 200)"

definition wallet_in_state :: "string \<Rightarrow> gateway" where
  "wallet_in_state st = scripted (\<lambda>k. Inr ()) (\<lambda>k. Inr st) (\<lambda>k d. Inr 200)"

text \<open>
  A gateway that rejects B and fails on C with an error of neither class; a gateway whose
  call number \<open>k0\<close> raises the explicit retry signal and that is fine otherwise; and one
  whose call number \<open>k0\<close> is busy and that fails with an error of neither class otherwise.
\<close>

definition rejecting_B_crashing_C :: gateway where
  "rejecting_B_crashing_C =
     answering (\<lambda>d. if d = ''B'' then Inl rejected else if d = ''C'' then Inl crashed else Inr 200)"

definition again_once_at :: "nat \<Rightarrow> gateway" where
  "again_once_at k0 =
     scripted (\<lambda>k. if k = k0 then Inl try_again else Inr ())
       (\<lambda>k. if k = k0 then Inl try_again else Inr ''active'')
       (\<lambda>k d. if k = k0 then Inl try_again else Inr 200)"

definition busy_then_crashed :: "nat \<Rightarrow> gateway" where
  "busy_then_crashed k0 =
     scripted (\<lambda>k. if k = k0 then Inl busy else Inl crashed)
       (\<lambda>k. if k = k0 then Inl busy else Inl crashed)
       (\<lambda>k d. if k = k0 then Inl busy else Inl crashed)"

text \<open>
  Gateways that resolve at once and answer each transfer by the number of the call: the
  first accepted, the second busy, the others failing with an error of neither class;
  and the first busy, the second rejected, the others accepted.
\<close>

definition answering_nth :: "(nat \<Rightarrow> exn + int) \<Rightarrow> gateway" where
  "answering_nth answer = scripted (\<lambda>k. Inr ()) (\<lambda>k. Inr ''active'') (\<lambda>k d. answer k)"

definition accepted_busy_crashed :: gateway where
  "accepted_busy_crashed =
     answering_nth (\<lambda>k. if k = 0 then Inr 200 else if k = 1 then Inl busy else Inl crashed)"

definition busy_rejected_accepted :: gateway where
  "busy_rejected_accepted =
     answering_nth (\<lambda>k. if k = 0 then Inl busy else if k = 1 then Inl rejected else Inr 200)"

text \<open>The world once the jetton is resolved, and once the wallet is, in a given state.\<close>

definition jetton_resolved :: world where
  "jetton_resolved = emit (Log INFO (JettonInfo example_jetton)) (call (JettonUpdate ''EQJ'') initial)"

definition resolved :: "string \<Rightarrow> world" where
  "resolved st =
     emit (Log INFO (SourceWalletState st)) (call (GetState example_mnemonic ''v4r2'') jetton_resolved)"

section \<open>Basic facts\<close>

lemma trace_emit: "trace (emit e w) = trace w @ [e]"
  by (simp add: emit_def)

lemma calls_emit: "calls (emit e w) = calls w"
  by (simp add: emit_def)

lemma trace_call: "trace (call r w) = trace w @ [Call r]"
  by (simp add: call_def)

lemma calls_call: "calls (call r w) = Suc (calls w)"
  by (simp add: call_def)

lemma transfers_append: "transfers (xs @ ys) = transfers xs @ transfers ys"
  by (induction xs rule: transfers.induct) simp_all

lemma sleeps_append: "sleeps (xs @ ys) = sleeps xs @ sleeps ys"
  by (induction xs rule: sleeps.induct) simp_all

lemma retry_returns:
  "fn w = (Inr v, w1) \<Longrightarrow> retry rr n s nm fn a w = (Inr v, w1)"
  by (subst retry.simps) simp

lemma retry_propagates:
  "fn w = (Inl e, w1) \<Longrightarrow> \<not> retried e
     \<Longrightarrow> retry rr n s nm fn a w = (Inl e, w1)"
  by (subst retry.simps) simp

lemma retry_again:
  "fn w = (Inl e, w1) \<Longrightarrow> retried e \<Longrightarrow> a < n
     \<Longrightarrow> retry rr n s nm fn a w =
         retry rr n s nm fn (a + 1) (emit (Wait s) (emit (Log INFO (FinishedCall nm a)) w1))"
  by (subst retry.simps) (simp add: Let_def)

lemma retry_exhausted:
  "fn w = (Inl e, w1) \<Longrightarrow> retried e \<Longrightarrow> n \<le> a
     \<Longrightarrow> retry rr n s nm fn a w =
         (Inl (if rr then e else RetryError e), emit (Log INFO (FinishedCall nm a)) w1)"
  by (subst retry.simps) (simp add: Let_def)



lemma send_jetton_body_raises:
  assumes "transfer_jetton gw (calls w) d (address j) amt f = Inl e"
    and "\<not> isinstance e ''GetMethodError''"
  shows "send_jetton_body gw sw d j amt f sl w =
           (Inl e, emit (Log ERROR (CannotSendJetton d e))
                      (call (TransferJetton d (address j) amt f) w))"
  using assms by (simp add: send_jetton_body_def send_jetton_try_def)

lemma retry_skip_failures:
  fixes fn :: "world \<Rightarrow> (exn + 'a) \<times> world"
  assumes fail: "\<And>v. c \<le> calls v \<Longrightarrow> calls v < c + j \<Longrightarrow>
                   fn v = (Inl (err (calls v)), step v)
                   \<and> retried (err (calls v))
                   \<and> calls (step v) = Suc (calls v)"
    and bound: "int j < max 1 n"
    and start: "calls w = c" "P 0 w"
    and inv: "\<And>i v. i < j \<Longrightarrow> calls v = c + i \<Longrightarrow> P i v \<Longrightarrow>
                P (Suc i) (emit (Wait s) (emit (Log INFO (FinishedCall nm (int i + 1))) (step v)))"
  shows "\<exists>wj. retry rr n s nm fn 1 w = retry rr n s nm fn (int j + 1) wj
              \<and> P j wj \<and> calls wj = c + j"
  using fail bound inv
proof (induction j)
  case 0
  then show ?case using start by auto
next
  case (Suc j)
  have "\<exists>wj. retry rr n s nm fn 1 w = retry rr n s nm fn (int j + 1) wj
              \<and> P j wj \<and> calls wj = c + j"
  proof (rule Suc.IH)
    show "int j < max 1 n" using Suc.prems(2) by simp
  next
    fix v :: world assume "c \<le> calls v" "calls v < c + j"
    then show "fn v = (Inl (err (calls v)), step v)
                 \<and> retried (err (calls v))
                 \<and> calls (step v) = Suc (calls v)"
      using Suc.prems(1) [of v] by simp
  next
    fix i and v :: world assume "i < j" "calls v = c + i" "P i v"
    then show "P (Suc i) (emit (Wait s) (emit (Log INFO (FinishedCall nm (int i + 1))) (step v)))"
      using Suc.prems(3) [of i v] by simp
  qed
  then obtain wj where wj: "retry rr n s nm fn 1 w = retry rr n s nm fn (int j + 1) wj"
    "P j wj" "calls wj = c + j" by blast
  have f: "fn wj = (Inl (err (calls wj)), step wj)"
    and r: "retried (err (calls wj))"
    and k: "calls (step wj) = Suc (calls wj)"
    using Suc.prems(1) [of wj] wj(3) by simp_all
  have lt: "int j + 1 < n" using Suc.prems(2) by simp
  let ?w' = "emit (Wait s) (emit (Log INFO (FinishedCall nm (int j + 1))) (step wj))"
  have "retry rr n s nm fn (int j + 1) wj = retry rr n s nm fn (int j + 1 + 1) ?w'"
    by (rule retry_again [where fn = fn and w = wj, OF f r lt])
  moreover have "P (Suc j) ?w'" using Suc.prems(3) [of j wj] wj by simp
  moreover have "calls ?w' = c + Suc j" using k wj(3) by (simp add: calls_emit)
  ultimately show ?case using wj(1) by (auto simp: add.commute add.left_commute)
qed

lemma retry_exhaust:
  fixes fn :: "world \<Rightarrow> (exn + 'a) \<times> world"
  assumes fail: "\<And>v. c \<le> calls v \<Longrightarrow> calls v < c + N \<Longrightarrow>
                   fn v = (Inl (err (calls v)), step v)
                   \<and> retried (err (calls v))
                   \<and> calls (step v) = Suc (calls v)"
    and N: "N = nat (max 1 n)"
    and start: "calls w = c" "P 0 w"
    and inv: "\<And>i v. Suc i < N \<Longrightarrow> calls v = c + i \<Longrightarrow> P i v \<Longrightarrow>
                P (Suc i) (emit (Wait s) (emit (Log INFO (FinishedCall nm (int i + 1))) (step v)))"
    and fin: "\<And>v. calls v = c + (N - 1) \<Longrightarrow> P (N - 1) v \<Longrightarrow>
                Q (emit (Log INFO (FinishedCall nm (int N))) (step v))"
  shows "\<exists>wf. retry rr n s nm fn 1 w =
                 (Inl (if rr then err (c + (N - 1)) else RetryError (err (c + (N - 1)))), wf)
              \<and> Q wf \<and> calls wf = c + N"
proof -
  have Npos: "0 < N" using N by simp
  have "\<exists>wj. retry rr n s nm fn 1 w = retry rr n s nm fn (int (N - 1) + 1) wj
              \<and> P (N - 1) wj \<and> calls wj = c + (N - 1)"
  proof (rule retry_skip_failures [where err = err and step = step])
    show "int (N - 1) < max 1 n" using N by simp
  next
    fix v :: world assume "c \<le> calls v" "calls v < c + (N - 1)"
    then show "fn v = (Inl (err (calls v)), step v)
                 \<and> retried (err (calls v))
                 \<and> calls (step v) = Suc (calls v)"
      using fail [of v] by simp
  next
    fix i and v :: world assume "i < N - 1" "calls v = c + i" "P i v"
    then show "P (Suc i) (emit (Wait s) (emit (Log INFO (FinishedCall nm (int i + 1))) (step v)))"
      using inv [of i v] by simp
  qed (rule start)+
  then obtain wj where wj: "retry rr n s nm fn 1 w = retry rr n s nm fn (int (N - 1) + 1) wj"
    "P (N - 1) wj" "calls wj = c + (N - 1)" by blast
  have a: "int (N - 1) + 1 = int N" using Npos by simp
  have f: "fn wj = (Inl (err (calls wj)), step wj)"
    and r: "retried (err (calls wj))"
    and k: "calls (step wj) = Suc (calls wj)"
    using fail [of wj] wj(3) Npos by simp_all
  have le: "n \<le> int N" using N by (simp add: max_def)
  let ?wf = "emit (Log INFO (FinishedCall nm (int N))) (step wj)"
  have "retry rr n s nm fn (int N) wj =
          (Inl (if rr then err (calls wj) else RetryError (err (calls wj))), ?wf)"
    by (rule retry_exhausted [where fn = fn and w = wj, OF f r le])
  moreover have "Q ?wf" using fin [of wj] wj by simp
  moreover have "calls ?wf = c + N" using k wj(3) Npos by (simp add: calls_emit)
  ultimately show ?thesis using wj a by auto
qed



lemma retry_invariant:
  fixes fn :: "world \<Rightarrow> (exn + 'a) \<times> world"
  assumes body: "\<And>v. I v \<Longrightarrow> I (snd (fn v))"
    and log: "\<And>v k. I v \<Longrightarrow> I (emit (Log INFO (FinishedCall nm k)) v)"
    and wait: "\<And>v. I v \<Longrightarrow> I (emit (Wait s) v)"
    and start: "I w"
  shows "I (snd (retry rr n s nm fn a w))"
  using start
proof (induction "nat (n - a)" arbitrary: a w)
  case 0
  obtain r w1 where f: "fn w = (r, w1)" by (cases "fn w")
  have i: "I w1" using body [OF 0(2)] f by simp
  show ?case
  proof (cases r)
    case (Inr v)
    then show ?thesis using retry_returns [of fn w v w1] f i by simp
  next
    case (Inl e)
    show ?thesis
    proof (cases "retried e")
      case True
      have "n \<le> a" using 0 by simp
      then show ?thesis
        using retry_exhausted [where fn = fn and w = w and e = e and ?w1.0 = w1] f Inl True
          log [OF i]
        by simp
    next
      case False
      then show ?thesis
        using retry_propagates [where fn = fn and w = w and e = e and ?w1.0 = w1] f Inl i
        by simp
    qed
  qed
next
  case (Suc k)
  obtain r w1 where f: "fn w = (r, w1)" by (cases "fn w")
  have i: "I w1" using body [OF Suc.prems] f by simp
  have lt: "a < n" using Suc.hyps(2) by simp
  show ?case
  proof (cases r)
    case (Inr v)
    then show ?thesis using retry_returns [of fn w v w1] f i by simp
  next
    case (Inl e)
    show ?thesis
    proof (cases "retried e")
      case True
      let ?w' = "emit (Wait s) (emit (Log INFO (FinishedCall nm a)) w1)"
      have eq: "retry rr n s nm fn a w = retry rr n s nm fn (a + 1) ?w'"
        using retry_again [where fn = fn and w = w and e = e and ?w1.0 = w1] f Inl True lt
        by simp
      have k: "k = nat (n - (a + 1))" using Suc.hyps(2) by simp
      have "I ?w'" by (rule wait [OF log [OF i]])
      then have "I (snd (retry rr n s nm fn (a + 1) ?w'))" by (rule Suc.hyps(1) [OF k])
      then show ?thesis unfolding eq .
    next
      case False
      then show ?thesis
        using retry_propagates [where fn = fn and w = w and e = e and ?w1.0 = w1] f Inl i
        by simp
    qed
  qed
qed




lemma get_jetton_body_transfers:
  "transfers (trace (snd (get_jetton_body gw a w))) = transfers (trace w)"
  by (simp add: get_jetton_body_def Let_def trace_emit trace_call transfers_append split: sum.split)

lemma get_wallet_body_transfers:
  "transfers (trace (snd (get_wallet_body gw m v w))) = transfers (trace w)"
  by (simp add: get_wallet_body_def Let_def trace_emit trace_call transfers_append split: sum.split)





subsection \<open>One send, and the loop\<close>





lemma get_jetton_transfers:
  "transfers (trace (snd (get_jetton gw env a w))) = transfers (trace w)"
  unfolding get_jetton_def
  by (rule retry_invariant [where I = "\<lambda>v. transfers (trace v) = transfers (trace w)"])
     (simp_all add: get_jetton_body_transfers trace_emit transfers_append)

lemma get_wallet_transfers:
  "transfers (trace (snd (get_wallet gw env m v w))) = transfers (trace w)"
  unfolding get_wallet_def
  by (rule retry_invariant [where I = "\<lambda>v. transfers (trace v) = transfers (trace w)"])
     (simp_all add: get_wallet_body_transfers trace_emit transfers_append)








subsection \<open>Resolution and the whole run\<close>




lemma get_jetton_exhausted:
  assumes "\<forall>k < nat (max 1 (RETRIEVE_RETRY_ATTEMPTS env)).
             jetton_update gw (calls w + k) a = Inl (err k)
           \<and> isinstance (err k) ''TonCenterClientError''"
  shows "fst (get_jetton gw env a w) = Inl (err (nat (max 1 (RETRIEVE_RETRY_ATTEMPTS env)) - 1))"
proof -
  define N where "N = nat (max 1 (RETRIEVE_RETRY_ATTEMPTS env))"
  define c where "c = calls w"
  let ?err = "\<lambda>i. err (i - c)"
  have "\<exists>wf. retry True (RETRIEVE_RETRY_ATTEMPTS env) (RETRIEVE_RETRY_WAIT env) ''get_jetton''
               (get_jetton_body gw a) 1 w =
                 (Inl (if True then ?err (c + (N - 1)) else RetryError (?err (c + (N - 1)))), wf)
              \<and> True \<and> calls wf = c + N"
  proof (rule retry_exhaust [where step = "call (JettonUpdate a)" and P = "\<lambda>i v. True"
        and Q = "\<lambda>v. True"])
    fix v :: world assume v: "c \<le> calls v" "calls v < c + N"
    then have k: "calls v - c < N" "calls w + (calls v - c) = calls v" using c_def by simp_all
    from assms [unfolded N_def [symmetric], rule_format, OF k(1)]
    show "get_jetton_body gw a v = (Inl (?err (calls v)), call (JettonUpdate a) v)
            \<and> retried (?err (calls v))
            \<and> calls (call (JettonUpdate a) v) = Suc (calls v)"
      unfolding k(2) by (simp add: get_jetton_body_def calls_call retried_def)
  qed (simp_all add: N_def c_def)
  then show ?thesis unfolding get_jetton_def N_def [symmetric] by auto
qed

lemma get_wallet_exhausted:
  assumes "\<forall>k < nat (max 1 (RETRIEVE_RETRY_ATTEMPTS env)).
             wallet_get_state gw (calls w + k) m ver = Inl (err k)
           \<and> isinstance (err k) ''TonCenterClientError''"
  shows "fst (get_wallet gw env m ver w) = Inl (err (nat (max 1 (RETRIEVE_RETRY_ATTEMPTS env)) - 1))"
proof -
  define N where "N = nat (max 1 (RETRIEVE_RETRY_ATTEMPTS env))"
  define c where "c = calls w"
  let ?err = "\<lambda>i. err (i - c)"
  have "\<exists>wf. retry True (RETRIEVE_RETRY_ATTEMPTS env) (RETRIEVE_RETRY_WAIT env) ''get_wallet''
               (get_wallet_body gw m ver) 1 w =
                 (Inl (if True then ?err (c + (N - 1)) else RetryError (?err (c + (N - 1)))), wf)
              \<and> True \<and> calls wf = c + N"
  proof (rule retry_exhaust [where step = "call (GetState m ver)" and P = "\<lambda>i v. True"
        and Q = "\<lambda>v. True"])
    fix v :: world assume v: "c \<le> calls v" "calls v < c + N"
    then have k: "calls v - c < N" "calls w + (calls v - c) = calls v" using c_def by simp_all
    from assms [unfolded N_def [symmetric], rule_format, OF k(1)]
    show "get_wallet_body gw m ver v = (Inl (?err (calls v)), call (GetState m ver) v)
            \<and> retried (?err (calls v))
            \<and> calls (call (GetState m ver) v) = Suc (calls v)"
      unfolding k(2) by (simp add: get_wallet_body_def calls_call retried_def)
  qed (simp_all add: N_def c_def)
  then show ?thesis unfolding get_wallet_def N_def [symmetric] by auto
qed

lemma resolution_failed_exit:
  "isinstance e ''TonCenterClientError'' \<Longrightarrow>
     resolution_failed e w = (Inl (SystemExit 3), emit (Log ERROR CannotGetJettonOrWallet) w)"
  by (simp add: resolution_failed_def)

lemma main_jetton_failed:
  assumes "fst (get_jetton gw env (jetton_address a) initial) = Inl e"
    and "isinstance e ''TonCenterClientError''"
  shows "fst (main gw env a mn ds) = Inl (SystemExit 3)
       \<and> transfers (trace (snd (main gw env a mn ds))) = []"
proof -
  obtain w1 where g: "get_jetton gw env (jetton_address a) initial = (Inl e, w1)"
    using assms(1) by (cases "get_jetton gw env (jetton_address a) initial") auto
  have "transfers (trace w1) = []"
    using get_jetton_transfers [of gw env "jetton_address a" initial] g by (simp add: initial_def)
  then show ?thesis
    by (simp add: main_def g resolution_failed_exit [OF assms(2)] trace_emit transfers_append)
qed

lemma main_wallet_failed:
  assumes "get_jetton gw env (jetton_address a) initial = (Inr jt, w1)"
    and "fst (get_wallet gw env mn (source_wallet_version a) w1) = Inl e"
    and "isinstance e ''TonCenterClientError''"
  shows "fst (main gw env a mn ds) = Inl (SystemExit 3)
       \<and> transfers (trace (snd (main gw env a mn ds))) = []"
proof -
  obtain w2 where g: "get_wallet gw env mn (source_wallet_version a) w1 = (Inl e, w2)"
    using assms(2) by (cases "get_wallet gw env mn (source_wallet_version a) w1") auto
  have "transfers (trace w1) = []"
    using get_jetton_transfers [of gw env "jetton_address a" initial] assms(1)
    by (simp add: initial_def)
  moreover have "transfers (trace w2) = transfers (trace w1)"
    using get_wallet_transfers [of gw env mn "source_wallet_version a" w1] g by simp
  ultimately show ?thesis
    by (simp add: main_def assms(1) g resolution_failed_exit [OF assms(3)] trace_emit
        transfers_append)
qed

lemma main_resolved:
  assumes "get_jetton gw env (jetton_address a) initial = (Inr jt, w1)"
    and "get_wallet gw env mn (source_wallet_version a) w1 = (Inr (sw, st), w2)"
  shows "main gw env a mn ds =
           (if st \<noteq> WalletState_active
            then (Inl (SystemExit 4), emit (Log ERROR (SourceWalletNotActive sw)) w2)
            else send_loop gw env sw jt (jetton_send_amount a) (jetton_send_fee a)
                   (jetton_send_sleep a) ds w2)"
    and "transfers (trace w2) = []"
proof -
  show "main gw env a mn ds =
           (if st \<noteq> WalletState_active
            then (Inl (SystemExit 4), emit (Log ERROR (SourceWalletNotActive sw)) w2)
            else send_loop gw env sw jt (jetton_send_amount a) (jetton_send_fee a)
                   (jetton_send_sleep a) ds w2)"
    by (simp add: main_def assms)
  have "transfers (trace w1) = []"
    using get_jetton_transfers [of gw env "jetton_address a" initial] assms(1)
    by (simp add: initial_def)
  moreover have "transfers (trace w2) = transfers (trace w1)"
    using get_wallet_transfers [of gw env mn "source_wallet_version a" w1] assms(2) by simp
  ultimately show "transfers (trace w2) = []" by simp
qed


subsection \<open>Failed attempts followed by a last one\<close>













subsection \<open>Rules for evaluating the example runs\<close>

lemmas example_defs =
  answering_def scripted_def always_sent_def always_busy_def rejecting_B_def crashing_B_def
  jetton_down_def wallet_down_def wallet_in_state_def example_env_def example_args_def
  example_wallet_def example_jetton_def example_mnemonic_def example_transfer_def
  busy_def rejected_def crashed_def try_again_def rejecting_B_crashing_C_def again_once_at_def
  busy_then_crashed_def answering_nth_def accepted_busy_crashed_def busy_rejected_accepted_def

lemmas run_defs =
  main_def get_jetton_def get_wallet_def send_jetton_def get_jetton_body_def get_wallet_body_def
  send_jetton_body_def send_jetton_try_def sleep_def sleep_accepts_def resolution_failed_def retry.simps
  WalletState_active_def initial_def emit_def call_def sent_def jetton_resolved_def resolved_def
  retried_def Let_def

section \<open>The retry policy\<close>




section \<open>Failures of a send\<close>

text \<open>
  C1 (as amended). When the transfer to a destination raises a transient gateway error
  (an instance of \<^verbatim>\<open>TonCenterClientError\<close> that is not a \<^verbatim>\<open>GetMethodError\<close>) on every one
  of the \<open>max 1 SEND_RETRY_ATTEMPTS\<close> attempts, each failure is logged, and then the
  decorator raises \<^verbatim>\<open>RetryError\<close> around the last error. Nothing catches it: the loop
  ends with that error, the exit status is 1, exactly that many transfers were submitted
  since the destination was reached, all of them to this destination and none to a later
  one, and no inter-send sleep took place.
\<close>

theorem send_exhaustion_aborts:
  assumes busy_every_time:
    "\<forall>k < nat (max 1 (SEND_RETRY_ATTEMPTS env)).
        transfer_jetton gw (calls w + k) d (address j) amt f = Inl (err k)
      \<and> isinstance (err k) ''TonCenterClientError''
      \<and> \<not> isinstance (err k) ''GetMethodError''"
  shows "fst (send_loop gw env sw j amt f sl (d # rest) w) =
           Inl (RetryError (err (nat (max 1 (SEND_RETRY_ATTEMPTS env)) - 1)))
       \<and> exit_code (fst (send_loop gw env sw j amt f sl (d # rest) w)) = 1
       \<and> calls (snd (send_loop gw env sw j amt f sl (d # rest) w)) =
           calls w + nat (max 1 (SEND_RETRY_ATTEMPTS env))
       \<and> transfers (trace (snd (send_loop gw env sw j amt f sl (d # rest) w))) =
           transfers (trace w) @
           replicate (nat (max 1 (SEND_RETRY_ATTEMPTS env))) (TransferJetton d (address j) amt f)
       \<and> sleeps (trace (snd (send_loop gw env sw j amt f sl (d # rest) w))) = sleeps (trace w)
       \<and> (\<forall>k < nat (max 1 (SEND_RETRY_ATTEMPTS env)).
             Log ERROR (CannotSendJetton d (err k))
               \<in> set (trace (snd (send_loop gw env sw j amt f sl (d # rest) w))))"
proof -
  define N where "N = nat (max 1 (SEND_RETRY_ATTEMPTS env))"
  define c where "c = calls w"
  let ?r = "TransferJetton d (address j) amt f"
  let ?fn = "send_jetton_body gw sw d j amt f sl"
  let ?err = "\<lambda>i. err (i - c)"
  let ?step = "\<lambda>v. emit (Log ERROR (CannotSendJetton d (err (calls v - c)))) (call ?r v)"
  let ?P = "\<lambda>i v. transfers (trace v) = transfers (trace w) @ replicate i ?r
              \<and> sleeps (trace v) = sleeps (trace w)
              \<and> (\<forall>k<i. Log ERROR (CannotSendJetton d (err k)) \<in> set (trace v))"
  have fail: "?fn v = (Inl (?err (calls v)), ?step v)
                \<and> retried (?err (calls v))
                \<and> calls (?step v) = Suc (calls v)"
    if "c \<le> calls v" "calls v < c + N" for v
  proof -
    have k: "calls v - c < N" "calls w + (calls v - c) = calls v" using that c_def by simp_all
    from busy_every_time [unfolded N_def [symmetric], rule_format, OF k(1)]
    have t: "transfer_jetton gw (calls v) d (address j) amt f = Inl (?err (calls v))"
      and i: "isinstance (?err (calls v)) ''TonCenterClientError''"
      and g: "\<not> isinstance (?err (calls v)) ''GetMethodError''"
      unfolding k(2) by simp_all
    show ?thesis
      using send_jetton_body_raises [OF t g] i by (simp add: calls_emit calls_call retried_def)
  qed
  have grow: "?P (Suc i) (emit e2 (emit e1 (?step v)))"
    if "calls v = c + i" "?P i v" "sleeps [e1, e2] = []" "transfers [e1, e2] = []" for i v e1 e2
  proof -
    have tr: "trace (emit e2 (emit e1 (?step v))) =
                trace v @ [Call ?r, Log ERROR (CannotSendJetton d (err i)), e1, e2]"
      using that(1) by (simp add: trace_emit trace_call)
    have "transfers [Call ?r, Log ERROR (CannotSendJetton d (err i)), e1, e2] = [?r]"
      using that(4) by simp
    moreover have "sleeps [Call ?r, Log ERROR (CannotSendJetton d (err i)), e1, e2] = []"
      using that(3) by simp
    ultimately show ?thesis
      using that(2) unfolding tr
      by (auto simp: transfers_append sleeps_append replicate_append_same less_Suc_eq)
  qed
  have grow1: "?P (Suc i) (emit e1 (?step v))"
    if "calls v = c + i" "?P i v" "sleeps [e1] = []" "transfers [e1] = []" for i v e1
  proof -
    have tr: "trace (emit e1 (?step v)) =
                trace v @ [Call ?r, Log ERROR (CannotSendJetton d (err i)), e1]"
      using that(1) by (simp add: trace_emit trace_call)
    have "transfers [Call ?r, Log ERROR (CannotSendJetton d (err i)), e1] = [?r]"
      using that(4) by simp
    moreover have "sleeps [Call ?r, Log ERROR (CannotSendJetton d (err i)), e1] = []"
      using that(3) by simp
    ultimately show ?thesis
      using that(2) unfolding tr
      by (auto simp: transfers_append sleeps_append replicate_append_same less_Suc_eq)
  qed
  have Npos: "0 < N" unfolding N_def by simp
  have "\<exists>wf. retry False (SEND_RETRY_ATTEMPTS env) (SEND_RETRY_WAIT env) ''send_jetton'' ?fn 1 w =
                 (Inl (if False then ?err (c + (N - 1)) else RetryError (?err (c + (N - 1)))), wf)
              \<and> ?P N wf \<and> calls wf = c + N"
  proof (rule retry_exhaust [where step = ?step and P = ?P and Q = "?P N"])
    fix v :: world assume "c \<le> calls v" "calls v < c + N"
    then show "?fn v = (Inl (?err (calls v)), ?step v)
                \<and> retried (?err (calls v))
                \<and> calls (?step v) = Suc (calls v)"
      by (rule fail)
  next
    show "N = nat (max 1 (SEND_RETRY_ATTEMPTS env))" by (rule N_def)
  next
    show "calls w = c" by (simp add: c_def)
  next
    show "?P 0 w" by simp
  next
    fix i and v :: world assume "Suc i < N" "calls v = c + i" "?P i v"
    then show "?P (Suc i) (emit (Wait (SEND_RETRY_WAIT env))
                 (emit (Log INFO (FinishedCall ''send_jetton'' (int i + 1))) (?step v)))"
      by (intro grow) simp_all
  next
    fix v :: world assume "calls v = c + (N - 1)" "?P (N - 1) v"
    then have "?P (Suc (N - 1)) (emit (Log INFO (FinishedCall ''send_jetton'' (int N))) (?step v))"
      by (intro grow1) simp_all
    then show "?P N (emit (Log INFO (FinishedCall ''send_jetton'' (int N))) (?step v))"
      using Npos by simp
  qed
  then obtain wf where wf:
    "send_jetton gw env sw d j amt f sl w = (Inl (RetryError (err (N - 1))), wf)"
    "?P N wf" "calls wf = c + N"
    unfolding send_jetton_def by auto
  have loop: "send_loop gw env sw j amt f sl (d # rest) w = (Inl (RetryError (err (N - 1))), wf)"
    by (simp add: wf(1))
  show ?thesis
    unfolding N_def [symmetric] loop using wf(2,3) by (simp add: c_def)
qed

theorem send_exhaustion_aborts_witness:
  "nat (max 1 (SEND_RETRY_ATTEMPTS example_env)) = 2
   \<and> transfer_jetton always_busy (calls initial) ''A'' (address example_jetton) 10 (1 / 20)
       = Inl busy
   \<and> transfer_jetton always_busy (calls initial + 1) ''A'' (address example_jetton) 10 (1 / 20)
       = Inl busy
   \<and> isinstance busy ''TonCenterClientError'' \<and> \<not> isinstance busy ''GetMethodError''
   \<and> fst (send_loop always_busy example_env example_wallet example_jetton 10 (1 / 20) 60
            [''A'', ''B''] initial) = Inl (RetryError busy)
   \<and> transfers (trace (snd (send_loop always_busy example_env example_wallet example_jetton 10
            (1 / 20) 60 [''A'', ''B''] initial))) = [example_transfer ''A'', example_transfer ''A'']"
proof -
  have h: "\<forall>k < nat (max 1 (SEND_RETRY_ATTEMPTS example_env)).
        transfer_jetton always_busy (calls initial + k) ''A'' (address example_jetton) 10 (1 / 20)
          = Inl ((\<lambda>k. busy) k)
      \<and> isinstance ((\<lambda>k. busy) k) ''TonCenterClientError''
      \<and> \<not> isinstance ((\<lambda>k. busy) k) ''GetMethodError''"
    by (simp add: example_defs)
  have n: "nat (max 1 (SEND_RETRY_ATTEMPTS example_env)) = Suc (Suc 0)"
    by (simp add: example_env_def)
  note t = send_exhaustion_aborts [OF h, of example_wallet 60 "[''B'']"]
  have given: "nat (max 1 (SEND_RETRY_ATTEMPTS example_env)) = 2
     \<and> transfer_jetton always_busy (calls initial) ''A'' (address example_jetton) 10 (1 / 20)
         = Inl busy
     \<and> transfer_jetton always_busy (calls initial + 1) ''A'' (address example_jetton) 10 (1 / 20)
         = Inl busy
     \<and> isinstance busy ''TonCenterClientError'' \<and> \<not> isinstance busy ''GetMethodError''"
    by (simp add: example_defs)
  have "transfers (trace initial) = []" by (simp add: initial_def)
  then have "fst (send_loop always_busy example_env example_wallet example_jetton 10 (1 / 20) 60
            [''A'', ''B''] initial) = Inl (RetryError busy)
   \<and> transfers (trace (snd (send_loop always_busy example_env example_wallet example_jetton 10
            (1 / 20) 60 [''A'', ''B''] initial))) = [example_transfer ''A'', example_transfer ''A'']"
    using t unfolding n by (simp add: example_transfer_def example_jetton_def)
  then show ?thesis using given by blast
qed

text \<open>
  The claim as the specification states it (the exhaustion is recovered locally and the
  engine continues) fails on a run with two destinations and a gateway that is always
  busy: \<^verbatim>\<open>main\<close> ends with \<^verbatim>\<open>RetryError\<close> and the second destination is never tried.
\<close>

theorem send_exhaustion_counterexample:
  "fst (main always_busy example_env example_args example_mnemonic [''A'', ''B''])
     = Inl (RetryError busy)
   \<and> exit_code (fst (main always_busy example_env example_args example_mnemonic [''A'', ''B''])) = 1
   \<and> transfers (trace (snd (main always_busy example_env example_args example_mnemonic
        [''A'', ''B'']))) = [example_transfer ''A'', example_transfer ''A'']"
  by (simp add: run_defs example_defs)




section \<open>Preconditions of the run\<close>

text \<open>
  C3. In every run in which the jetton and the wallet are resolved and the fetched state
  is not \<^verbatim>\<open>WalletState.active\<close>, \<^verbatim>\<open>main\<close> logs the error once and exits with code 4, and no
  transfer has been submitted. The check comes once, before the loop: in every run in
  which a transfer is submitted at all, the resolution returned the state \<^verbatim>\<open>active\<close>, no
  transfer had been submitted up to then, and the rest of the run is the send loop, which
  does not look at the state again.
\<close>

theorem inactive_wallet_exits_4:
  "(get_jetton gw env (jetton_address a) initial = (Inr jt, w1)
      \<and> get_wallet gw env mn (source_wallet_version a) w1 = (Inr (sw, st), w2)
      \<and> st \<noteq> WalletState_active
    \<longrightarrow> main gw env a mn ds =
          (Inl (SystemExit 4), emit (Log ERROR (SourceWalletNotActive sw)) w2)
      \<and> exit_code (fst (main gw env a mn ds)) = 4
      \<and> transfers (trace (snd (main gw env a mn ds))) = [])
   \<and> (transfers (trace (snd (main gw env a mn ds))) \<noteq> []
    \<longrightarrow> (\<exists>jt w1 sw w2.
            get_jetton gw env (jetton_address a) initial = (Inr jt, w1)
          \<and> get_wallet gw env mn (source_wallet_version a) w1 = (Inr (sw, WalletState_active), w2)
          \<and> transfers (trace w2) = []
          \<and> main gw env a mn ds =
              send_loop gw env sw jt (jetton_send_amount a) (jetton_send_fee a)
                (jetton_send_sleep a) ds w2))"
proof (intro conjI impI)
  {
    assume h: "get_jetton gw env (jetton_address a) initial = (Inr jt, w1)
      \<and> get_wallet gw env mn (source_wallet_version a) w1 = (Inr (sw, st), w2)
      \<and> st \<noteq> WalletState_active"
    then have m: "main gw env a mn ds =
          (Inl (SystemExit 4), emit (Log ERROR (SourceWalletNotActive sw)) w2)"
      using main_resolved(1) [of gw env a jt w1 mn sw st w2 ds] by simp
    have t: "transfers (trace w2) = []"
      using h main_resolved(2) [of gw env a jt w1 mn sw st w2] by simp
    show "main gw env a mn ds =
          (Inl (SystemExit 4), emit (Log ERROR (SourceWalletNotActive sw)) w2)" by (rule m)
    show "exit_code (fst (main gw env a mn ds)) = 4" unfolding m by simp
    show "transfers (trace (snd (main gw env a mn ds))) = []"
      unfolding m using t by (simp add: trace_emit transfers_append)
  }
  assume some: "transfers (trace (snd (main gw env a mn ds))) \<noteq> []"
  obtain r1 v1 where g1: "get_jetton gw env (jetton_address a) initial = (r1, v1)"
    by (cases "get_jetton gw env (jetton_address a) initial")
  have t1: "transfers (trace v1) = []"
    using get_jetton_transfers [of gw env "jetton_address a" initial] g1
    by (simp add: initial_def)
  show "\<exists>jt w1 sw w2.
            get_jetton gw env (jetton_address a) initial = (Inr jt, w1)
          \<and> get_wallet gw env mn (source_wallet_version a) w1 = (Inr (sw, WalletState_active), w2)
          \<and> transfers (trace w2) = []
          \<and> main gw env a mn ds =
              send_loop gw env sw jt (jetton_send_amount a) (jetton_send_fee a)
                (jetton_send_sleep a) ds w2"
  proof (cases r1)
    case (Inl e)
    then have "transfers (trace (snd (main gw env a mn ds))) = []"
      using g1 t1 by (simp add: main_def resolution_failed_def trace_emit transfers_append)
    then show ?thesis using some by simp
  next
    case jt: (Inr jt')
    obtain r2 v2 where g2: "get_wallet gw env mn (source_wallet_version a) v1 = (r2, v2)"
      by (cases "get_wallet gw env mn (source_wallet_version a) v1")
    have t2: "transfers (trace v2) = []"
      using get_wallet_transfers [of gw env mn "source_wallet_version a" v1] g2 t1 by simp
    show ?thesis
    proof (cases r2)
      case (Inl e)
      then have "transfers (trace (snd (main gw env a mn ds))) = []"
        using g1 jt g2 t2 by (simp add: main_def resolution_failed_def trace_emit transfers_append)
      then show ?thesis using some by simp
    next
      case (Inr p)
      obtain sw' st' where p: "p = (sw', st')" by (cases p)
      note m = main_resolved(1) [of gw env a jt' v1 mn sw' st' v2 ds]
      show ?thesis
      proof (cases "st' = WalletState_active")
        case True
        then show ?thesis using g1 jt g2 Inr p t2 m by simp
      next
        case False
        then have "transfers (trace (snd (main gw env a mn ds))) = []"
          using g1 jt g2 Inr p t2 m by (simp add: trace_emit transfers_append)
        then show ?thesis using some by simp
      qed
    qed
  qed
qed

theorem inactive_wallet_exits_4_witness:
  "get_jetton (wallet_in_state ''inactive'') example_env (jetton_address example_args) initial
     = (Inr example_jetton, jetton_resolved)
   \<and> get_wallet (wallet_in_state ''inactive'') example_env example_mnemonic
       (source_wallet_version example_args) jetton_resolved
     = (Inr (example_wallet, ''inactive''), resolved ''inactive'')
   \<and> ''inactive'' \<noteq> WalletState_active
   \<and> main (wallet_in_state ''inactive'') example_env example_args example_mnemonic [''A'']
     = (Inl (SystemExit 4),
        emit (Log ERROR (SourceWalletNotActive example_wallet)) (resolved ''inactive''))
   \<and> exit_code (fst (main (wallet_in_state ''inactive'') example_env example_args
        example_mnemonic [''A''])) = 4
   \<and> transfers (trace (snd (main (wallet_in_state ''inactive'') example_env example_args
        example_mnemonic [''A'']))) = []
   \<and> transfers (trace (snd (main always_sent example_env example_args example_mnemonic [''A''])))
       \<noteq> []
   \<and> (\<exists>jt w1 sw w2.
         get_jetton always_sent example_env (jetton_address example_args) initial = (Inr jt, w1)
       \<and> get_wallet always_sent example_env example_mnemonic (source_wallet_version example_args)
           w1 = (Inr (sw, WalletState_active), w2)
       \<and> transfers (trace w2) = []
       \<and> main always_sent example_env example_args example_mnemonic [''A''] =
           send_loop always_sent example_env sw jt (jetton_send_amount example_args)
             (jetton_send_fee example_args) (jetton_send_sleep example_args) [''A''] w2)"
proof -
  have h1: "get_jetton (wallet_in_state ''inactive'') example_env (jetton_address example_args)
              initial = (Inr example_jetton, jetton_resolved)"
    by (simp add: run_defs example_defs)
  have h2: "get_wallet (wallet_in_state ''inactive'') example_env example_mnemonic
       (source_wallet_version example_args) jetton_resolved
     = (Inr (example_wallet, ''inactive''), resolved ''inactive'')"
    by (simp add: run_defs example_defs)
  have h3: "''inactive'' \<noteq> WalletState_active" by (simp add: WalletState_active_def)
  have h4: "transfers (trace (snd (main always_sent example_env example_args example_mnemonic
              [''A'']))) \<noteq> []"
    by (simp add: run_defs example_defs)
  note ta = inactive_wallet_exits_4 [where gw = "wallet_in_state ''inactive''"
      and env = example_env and a = example_args and mn = example_mnemonic and ds = "[''A'']",
      THEN conjunct1, THEN mp, OF conjI [OF h1 conjI [OF h2 h3]]]
  note tb = inactive_wallet_exits_4 [where gw = always_sent
      and env = example_env and a = example_args and mn = example_mnemonic and ds = "[''A'']",
      THEN conjunct2, THEN mp, OF h4]
  show ?thesis using h1 h2 h3 h4 ta tb by (intro conjI) blast+
qed

text \<open>
  C4. When the jetton fetch raises an instance of \<^verbatim>\<open>TonCenterClientError\<close> on every one
  of the \<open>max 1 RETRIEVE_RETRY_ATTEMPTS\<close> attempts, or the jetton is resolved and the state
  fetch does so, the decorated function re-raises the last error, \<^verbatim>\<open>main\<close> exits with
  code 3 and no transfer has been submitted.
\<close>

theorem resolution_exhaustion_exits_3:
  "((\<forall>k < nat (max 1 (RETRIEVE_RETRY_ATTEMPTS env)).
        jetton_update gw k (jetton_address a) = Inl (err k)
      \<and> isinstance (err k) ''TonCenterClientError'')
    \<longrightarrow> fst (get_jetton gw env (jetton_address a) initial) =
          Inl (err (nat (max 1 (RETRIEVE_RETRY_ATTEMPTS env)) - 1))
      \<and> fst (main gw env a mn ds) = Inl (SystemExit 3)
      \<and> exit_code (fst (main gw env a mn ds)) = 3
      \<and> transfers (trace (snd (main gw env a mn ds))) = [])
   \<and> (get_jetton gw env (jetton_address a) initial = (Inr jt, w1)
      \<and> (\<forall>k < nat (max 1 (RETRIEVE_RETRY_ATTEMPTS env)).
            wallet_get_state gw (calls w1 + k) mn (source_wallet_version a) = Inl (err k)
          \<and> isinstance (err k) ''TonCenterClientError'')
    \<longrightarrow> fst (get_wallet gw env mn (source_wallet_version a) w1) =
          Inl (err (nat (max 1 (RETRIEVE_RETRY_ATTEMPTS env)) - 1))
      \<and> fst (main gw env a mn ds) = Inl (SystemExit 3)
      \<and> exit_code (fst (main gw env a mn ds)) = 3
      \<and> transfers (trace (snd (main gw env a mn ds))) = [])"
proof (intro conjI impI)
  define N where "N = nat (max 1 (RETRIEVE_RETRY_ATTEMPTS env))"
  have Npos: "N - 1 < N" unfolding N_def by simp
  {
    assume h: "\<forall>k < nat (max 1 (RETRIEVE_RETRY_ATTEMPTS env)).
        jetton_update gw k (jetton_address a) = Inl (err k)
      \<and> isinstance (err k) ''TonCenterClientError''"
    then have "\<forall>k < nat (max 1 (RETRIEVE_RETRY_ATTEMPTS env)).
        jetton_update gw (calls initial + k) (jetton_address a) = Inl (err k)
      \<and> isinstance (err k) ''TonCenterClientError''"
      by (simp add: initial_def)
    from get_jetton_exhausted [OF this]
    show g: "fst (get_jetton gw env (jetton_address a) initial) =
          Inl (err (nat (max 1 (RETRIEVE_RETRY_ATTEMPTS env)) - 1))" .
    have i: "isinstance (err (nat (max 1 (RETRIEVE_RETRY_ATTEMPTS env)) - 1)) ''TonCenterClientError''"
      using h Npos unfolding N_def by blast
    from main_jetton_failed [OF g i, of mn ds]
    show "fst (main gw env a mn ds) = Inl (SystemExit 3)"
      and "exit_code (fst (main gw env a mn ds)) = 3"
      and "transfers (trace (snd (main gw env a mn ds))) = []"
      by simp_all
  }
  {
    assume h: "get_jetton gw env (jetton_address a) initial = (Inr jt, w1)
      \<and> (\<forall>k < nat (max 1 (RETRIEVE_RETRY_ATTEMPTS env)).
            wallet_get_state gw (calls w1 + k) mn (source_wallet_version a) = Inl (err k)
          \<and> isinstance (err k) ''TonCenterClientError'')"
    from get_wallet_exhausted [OF h [THEN conjunct2]]
    show g: "fst (get_wallet gw env mn (source_wallet_version a) w1) =
          Inl (err (nat (max 1 (RETRIEVE_RETRY_ATTEMPTS env)) - 1))" .
    have i: "isinstance (err (nat (max 1 (RETRIEVE_RETRY_ATTEMPTS env)) - 1)) ''TonCenterClientError''"
      using h Npos unfolding N_def by blast
    from main_wallet_failed [OF h [THEN conjunct1] g i, of ds]
    show "fst (main gw env a mn ds) = Inl (SystemExit 3)"
      and "exit_code (fst (main gw env a mn ds)) = 3"
      and "transfers (trace (snd (main gw env a mn ds))) = []"
      by simp_all
  }
qed

theorem resolution_exhaustion_exits_3_witness:
  "nat (max 1 (RETRIEVE_RETRY_ATTEMPTS example_env)) = 2
   \<and> jetton_update jetton_down 0 (jetton_address example_args) = Inl busy
   \<and> jetton_update jetton_down 1 (jetton_address example_args) = Inl busy
   \<and> isinstance busy ''TonCenterClientError''
   \<and> fst (get_jetton jetton_down example_env (jetton_address example_args) initial) = Inl busy
   \<and> exit_code (fst (main jetton_down example_env example_args example_mnemonic [''A''])) = 3
   \<and> transfers (trace (snd (main jetton_down example_env example_args example_mnemonic [''A''])))
       = []
   \<and> get_jetton wallet_down example_env (jetton_address example_args) initial
       = (Inr example_jetton, jetton_resolved)
   \<and> wallet_get_state wallet_down (calls jetton_resolved) example_mnemonic
        (source_wallet_version example_args) = Inl busy
   \<and> wallet_get_state wallet_down (calls jetton_resolved + 1) example_mnemonic
        (source_wallet_version example_args) = Inl busy
   \<and> fst (get_wallet wallet_down example_env example_mnemonic (source_wallet_version example_args)
        jetton_resolved) = Inl busy
   \<and> exit_code (fst (main wallet_down example_env example_args example_mnemonic [''A''])) = 3
   \<and> transfers (trace (snd (main wallet_down example_env example_args example_mnemonic [''A''])))
       = []"
proof -
  have ha: "\<forall>k < nat (max 1 (RETRIEVE_RETRY_ATTEMPTS example_env)).
        jetton_update jetton_down k (jetton_address example_args) = Inl ((\<lambda>k. busy) k)
      \<and> isinstance ((\<lambda>k. busy) k) ''TonCenterClientError''"
    by (simp add: example_defs)
  have hb1: "get_jetton wallet_down example_env (jetton_address example_args) initial
       = (Inr example_jetton, jetton_resolved)"
    by (simp add: run_defs example_defs)
  have hb2: "\<forall>k < nat (max 1 (RETRIEVE_RETRY_ATTEMPTS example_env)).
        wallet_get_state wallet_down (calls jetton_resolved + k) example_mnemonic
          (source_wallet_version example_args) = Inl ((\<lambda>k. busy) k)
      \<and> isinstance ((\<lambda>k. busy) k) ''TonCenterClientError''"
    by (simp add: example_defs)
  note ta = resolution_exhaustion_exits_3 [where env = example_env and gw = jetton_down
      and a = example_args and err = "\<lambda>k. busy" and mn = example_mnemonic and ds = "[''A'']",
      THEN conjunct1, THEN mp, OF ha]
  note tb = resolution_exhaustion_exits_3 [where env = example_env and gw = wallet_down
      and a = example_args and err = "\<lambda>k. busy" and mn = example_mnemonic and ds = "[''A'']"
      and jt = example_jetton and ?w1.0 = jetton_resolved,
      THEN conjunct2, THEN mp, OF conjI [OF hb1 hb2]]
  have given: "nat (max 1 (RETRIEVE_RETRY_ATTEMPTS example_env)) = 2
     \<and> jetton_update jetton_down 0 (jetton_address example_args) = Inl busy
     \<and> jetton_update jetton_down 1 (jetton_address example_args) = Inl busy
     \<and> isinstance busy ''TonCenterClientError''
     \<and> wallet_get_state wallet_down (calls jetton_resolved) example_mnemonic
          (source_wallet_version example_args) = Inl busy
     \<and> wallet_get_state wallet_down (calls jetton_resolved + 1) example_mnemonic
          (source_wallet_version example_args) = Inl busy"
    by (simp add: example_defs)
  have last: "nat (max 1 (RETRIEVE_RETRY_ATTEMPTS example_env)) - 1 = 1"
    by (simp add: example_env_def)
  show ?thesis using given hb1 ta tb unfolding last by simp
qed

section \<open>Skipped destinations and pacing\<close>







section \<open>Order of the sends\<close>



section \<open>The activation check\<close>

text \<open>
  C9. The activation check compares the fetched state with the string "active": once the
  jetton and the wallet are resolved, any other state string gives exit code 4 with no
  transfer submitted, in particular a string that is none of the three members of
  \<^verbatim>\<open>WalletState\<close>, and the string "active" lets the run enter the send loop.
\<close>

theorem activation_check_is_string_equality:
  assumes "get_jetton gw env (jetton_address a) initial = (Inr jt, w1)"
    and "get_wallet gw env mn (source_wallet_version a) w1 = (Inr (sw, st), w2)"
  shows "(st \<noteq> ''active'' \<longrightarrow>
            fst (main gw env a mn ds) = Inl (SystemExit 4)
          \<and> exit_code (fst (main gw env a mn ds)) = 4
          \<and> transfers (trace (snd (main gw env a mn ds))) = [])
       \<and> (st = ''active'' \<longrightarrow>
            main gw env a mn ds =
              send_loop gw env sw jt (jetton_send_amount a) (jetton_send_fee a)
                (jetton_send_sleep a) ds w2)
       \<and> (st \<notin> {WalletState_active, WalletState_inactive, WalletState_notinit} \<longrightarrow>
            exit_code (fst (main gw env a mn ds)) = 4
          \<and> transfers (trace (snd (main gw env a mn ds))) = [])"
proof -
  note m = main_resolved(1) [OF assms, of ds] main_resolved(2) [OF assms]
  have no: "fst (main gw env a mn ds) = Inl (SystemExit 4)
          \<and> exit_code (fst (main gw env a mn ds)) = 4
          \<and> transfers (trace (snd (main gw env a mn ds))) = []" if "st \<noteq> ''active''"
    using that m by (simp add: WalletState_active_def trace_emit transfers_append)
  have yes: "main gw env a mn ds =
              send_loop gw env sw jt (jetton_send_amount a) (jetton_send_fee a)
                (jetton_send_sleep a) ds w2" if "st = ''active''"
    using that m(1) by (simp add: WalletState_active_def)
  have other: "st \<noteq> ''active''"
    if "st \<notin> {WalletState_active, WalletState_inactive, WalletState_notinit}"
    using that by (simp add: WalletState_active_def)
  show ?thesis using no yes other by blast
qed

theorem activation_check_is_string_equality_witness:
  "get_jetton (wallet_in_state ''frozen'') example_env (jetton_address example_args) initial
     = (Inr example_jetton, jetton_resolved)
   \<and> get_wallet (wallet_in_state ''frozen'') example_env example_mnemonic
       (source_wallet_version example_args) jetton_resolved
     = (Inr (example_wallet, ''frozen''), resolved ''frozen'')
   \<and> ''frozen'' \<notin> {WalletState_active, WalletState_inactive, WalletState_notinit}
   \<and> exit_code (fst (main (wallet_in_state ''frozen'') example_env example_args
        example_mnemonic [''A''])) = 4
   \<and> transfers (trace (snd (main (wallet_in_state ''frozen'') example_env example_args
        example_mnemonic [''A'']))) = []
   \<and> get_jetton (wallet_in_state ''active'') example_env (jetton_address example_args) initial
     = (Inr example_jetton, jetton_resolved)
   \<and> get_wallet (wallet_in_state ''active'') example_env example_mnemonic
       (source_wallet_version example_args) jetton_resolved
     = (Inr (example_wallet, ''active''), resolved ''active'')
   \<and> main (wallet_in_state ''active'') example_env example_args example_mnemonic [''A''] =
       send_loop (wallet_in_state ''active'') example_env example_wallet example_jetton
         (jetton_send_amount example_args) (jetton_send_fee example_args)
         (jetton_send_sleep example_args) [''A''] (resolved ''active'')"
proof -
  have f1: "get_jetton (wallet_in_state ''frozen'') example_env (jetton_address example_args)
              initial = (Inr example_jetton, jetton_resolved)"
    by (simp add: run_defs example_defs)
  have f2: "get_wallet (wallet_in_state ''frozen'') example_env example_mnemonic
       (source_wallet_version example_args) jetton_resolved
     = (Inr (example_wallet, ''frozen''), resolved ''frozen'')"
    by (simp add: run_defs example_defs)
  have f3: "''frozen'' \<notin> {WalletState_active, WalletState_inactive, WalletState_notinit}"
    by (simp add: WalletState_active_def WalletState_inactive_def WalletState_notinit_def)
  have a1: "get_jetton (wallet_in_state ''active'') example_env (jetton_address example_args)
              initial = (Inr example_jetton, jetton_resolved)"
    by (simp add: run_defs example_defs)
  have a2: "get_wallet (wallet_in_state ''active'') example_env example_mnemonic
       (source_wallet_version example_args) jetton_resolved
     = (Inr (example_wallet, ''active''), resolved ''active'')"
    by (simp add: run_defs example_defs)
  note tf = activation_check_is_string_equality [OF f1 f2, of "[''A'']"]
  note ta = activation_check_is_string_equality [OF a1 a2, of "[''A'']"]
  show ?thesis using f1 f2 f3 a1 a2 tf ta by (intro conjI) blast+
qed

section \<open>Method rejections and the retry wrapper\<close>



end
